theory Spec2Isabelle
  imports Complex_Main "HOL-Library.AList"
begin

section \<open>Python values, exceptions and dictionaries\<close>

text \<open>
  The exceptions the modelled code can raise. All of them are subclasses of Python's
  \<^verbatim>\<open>Exception\<close>: \<^verbatim>\<open>JSONDecodeError\<close> is what \<^verbatim>\<open>response.json()\<close> raises on a body that
  is not JSON, \<^verbatim>\<open>RequestException\<close> stands for the failures of the HTTP client itself.
\<close>

datatype exn = KeyError | TypeError | ValueError | OverflowError | JSONDecodeError | RequestException

text \<open>
  A parsed JSON document. Numbers are exact rationals (Python's \<^verbatim>\<open>int\<close> and finite
  \<^verbatim>\<open>float\<close> values compare by numeric value; rounding error of floats and the values
  NaN and Infinity are outside the model). An object keeps its entries in insertion
  order, as a Python \<^verbatim>\<open>dict\<close> does; the first entry of a key is its binding.
\<close>

datatype json =
    JNull
  | JBool bool
  | JNum rat
  | JStr string
  | JArr "json list"
  | JObj "(string \<times> json) list"

type_synonym 'v dict = "(string \<times> 'v) list"

text \<open>\<^verbatim>\<open>d[k]\<close> for a string key: \<^verbatim>\<open>KeyError\<close> when the key is missing.\<close>

definition dict_get :: "'v dict \<Rightarrow> string \<Rightarrow> exn + 'v" where
  "dict_get d k = (case map_of d k of None \<Rightarrow> Inl KeyError | Some v \<Rightarrow> Inr v)"

section \<open>Naive local date-times\<close>

text \<open>
  A \<^verbatim>\<open>datetime.datetime\<close> without time zone. The calendar date is kept as its proleptic
  Gregorian ordinal (\<^verbatim>\<open>date.toordinal()\<close>), which ranges from 1 (0001-01-01) to
  3652059 (9999-12-31); this is also how \<^verbatim>\<open>datetime.__add__\<close> computes.
\<close>

record datetime =
  ordinal :: int
  hour :: int
  minute :: int
  second :: int
  microsecond :: int

definition MAXORDINAL :: int where
  "MAXORDINAL = 3652059"

definition valid_datetime :: "datetime \<Rightarrow> bool" where
  "valid_datetime dt \<longleftrightarrow>
     1 \<le> ordinal dt \<and> ordinal dt \<le> MAXORDINAL \<and>
     0 \<le> hour dt \<and> hour dt < 24 \<and>
     0 \<le> minute dt \<and> minute dt < 60 \<and>
     0 \<le> second dt \<and> second dt < 60 \<and>
     0 \<le> microsecond dt \<and> microsecond dt < 1000000"

text \<open>Python orders date-times lexicographically by date, hour, minute, second, microsecond.\<close>

definition dt_less :: "datetime \<Rightarrow> datetime \<Rightarrow> bool" where
  "dt_less a b \<longleftrightarrow>
     ordinal a < ordinal b \<or> (ordinal a = ordinal b \<and>
      (hour a < hour b \<or> (hour a = hour b \<and>
        (minute a < minute b \<or> (minute a = minute b \<and>
          (second a < second b \<or> (second a = second b \<and> microsecond a < microsecond b)))))))"

definition dt_le :: "datetime \<Rightarrow> datetime \<Rightarrow> bool" where
  "dt_le a b \<longleftrightarrow> dt_less a b \<or> a = b"

text \<open>Microseconds since the start of ordinal day 0.\<close>

definition micros :: "datetime \<Rightarrow> int" where
  "micros dt = (((ordinal dt * 24 + hour dt) * 60 + minute dt) * 60 + second dt) * 1000000
                 + microsecond dt"

definition of_micros :: "int \<Rightarrow> datetime" where
  "of_micros t =
     \<lparr> ordinal = t div 86400000000,
       hour = (t mod 86400000000) div 3600000000,
       minute = (t mod 3600000000) div 60000000,
       second = (t mod 60000000) div 1000000,
       microsecond = t mod 1000000 \<rparr>"

text \<open>
  \<^verbatim>\<open>dt + timedelta(...)\<close> for a duration given in microseconds: the sum is normalised
  into days and time of day, and \<^verbatim>\<open>OverflowError\<close> is raised when the day leaves
  \<^verbatim>\<open>1..MAXORDINAL\<close>.
\<close>

definition add_micros :: "datetime \<Rightarrow> int \<Rightarrow> exn + datetime" where
  "add_micros dt d =
     (let r = of_micros (micros dt + d)
      in if 0 < ordinal r \<and> ordinal r \<le> MAXORDINAL then Inr r else Inl OverflowError)"

definition add_minutes :: "datetime \<Rightarrow> int \<Rightarrow> exn + datetime" where
  "add_minutes dt m = add_micros dt (m * 60000000)"

definition add_days :: "datetime \<Rightarrow> int \<Rightarrow> exn + datetime" where
  "add_days dt n = add_micros dt (n * 86400000000)"

subsection \<open>Parsing and printing \<^verbatim>\<open>%H:%M:%S\<close>\<close>

definition digit_val :: "char \<Rightarrow> int option" where
  "digit_val c = (let n = of_char c in if 48 \<le> n \<and> n \<le> 57 then Some (n - 48) else None)"

text \<open>
  A field of one or two decimal digits, as the directives \<^verbatim>\<open>%H\<close>, \<^verbatim>\<open>%M\<close>, \<^verbatim>\<open>%S\<close> accept.
  Only the ASCII digits are digits here.
\<close>

fun parse_field :: "string \<Rightarrow> int option" where
  "parse_field [a] = digit_val a"
| "parse_field [a, b] =
     (case (digit_val a, digit_val b) of
        (Some x, Some y) \<Rightarrow> Some (10 * x + y)
      | _ \<Rightarrow> None)"
| "parse_field _ = None"

fun split_colon :: "string \<Rightarrow> string list" where
  "split_colon [] = [[]]"
| "split_colon (c # cs) =
     (if c = CHR '':'' then [] # split_colon cs
      else (case split_colon cs of
              [] \<Rightarrow> [[c]]
            | f # fs \<Rightarrow> (c # f) # fs))"

text \<open>
  \<^verbatim>\<open>datetime.strptime(s, "%H:%M:%S").time()\<close>: hour, minute and second, or
  \<^verbatim>\<open>ValueError\<close> when the text does not match or a field is out of range.
\<close>

definition strptime_HMS :: "string \<Rightarrow> exn + (int \<times> int \<times> int)" where
  "strptime_HMS s =
     (case split_colon s of
        [h, m, sec] \<Rightarrow>
          (case (parse_field h, parse_field m, parse_field sec) of
             (Some hh, Some mm, Some ss) \<Rightarrow>
               if hh < 24 \<and> mm < 60 \<and> ss < 60 then Inr (hh, mm, ss) else Inl ValueError
           | _ \<Rightarrow> Inl ValueError)
      | _ \<Rightarrow> Inl ValueError)"

text \<open>
  Two decimal digits for a field of a date-time; hour, minute and second are below 60, so
  both digits are between 0 and 9.
\<close>

definition digit_char :: "int \<Rightarrow> char" where
  "digit_char d = ''0123456789'' ! nat d"

definition two_digits :: "int \<Rightarrow> string" where
  "two_digits n = [digit_char (n div 10), digit_char (n mod 10)]"

text \<open>\<^verbatim>\<open>dt.strftime("%H:%M:%S")\<close>.\<close>

definition strftime_HMS :: "datetime \<Rightarrow> string" where
  "strftime_HMS dt =
     two_digits (hour dt) @ '':'' @ two_digits (minute dt) @ '':'' @ two_digits (second dt)"

section \<open>The scheduler's time helpers (controller.py)\<close>

text \<open>
  \<^verbatim>\<open>is_x_minutes_in_future(time_str, minutes_in_future, now)\<close>: the time of day is put on
  the date of \<^verbatim>\<open>now\<close> and compared with \<^verbatim>\<open>now + timedelta(minutes=...)\<close> by \<^verbatim>\<open>>\<close>.
  The clock reading \<^verbatim>\<open>now\<close> is always passed explicitly.
\<close>

definition is_x_minutes_in_future :: "string \<Rightarrow> int \<Rightarrow> datetime \<Rightarrow> exn + bool" where
  "is_x_minutes_in_future time_str minutes_in_future now =
     (case strptime_HMS time_str of
        Inl e \<Rightarrow> Inl e
      | Inr (h, m, s) \<Rightarrow>
          (let given_datetime =
                 \<lparr> ordinal = ordinal now, hour = h, minute = m, second = s, microsecond = 0 \<rparr>
           in case add_minutes now minutes_in_future of
                Inl e \<Rightarrow> Inl e
              | Inr limit \<Rightarrow> Inr (dt_less limit given_datetime)))"

definition round_up_to_quarter_hour :: "datetime \<Rightarrow> exn + datetime" where
  "round_up_to_quarter_hour dt =
     (if second dt = 0 \<and> microsecond dt = 0 \<and> minute dt mod 15 = 0 then Inr dt
      else
        let next_minute = ((minute dt div 15) + 1) * 15 mod 60
        in if next_minute = 0 then
             (let next_hour = hour dt + 1
              in if next_hour = 24 then
                   (case add_days dt 1 of
                      Inl e \<Rightarrow> Inl e
                    | Inr dt' \<Rightarrow>
                        Inr (dt'\<lparr> hour := 0, minute := 0, second := 0, microsecond := 0 \<rparr>))
                 else Inr (dt\<lparr> hour := next_hour, minute := 0, second := 0, microsecond := 0 \<rparr>))
           else Inr (dt\<lparr> minute := next_minute, second := 0, microsecond := 0 \<rparr>))"

text \<open>
  Quarter-hour alignment: the minute is one of 0, 15, 30, 45 and seconds and microseconds
  are zero.
\<close>

definition quarter_aligned :: "datetime \<Rightarrow> bool" where
  "quarter_aligned dt \<longleftrightarrow> minute dt \<in> {0, 15, 30, 45} \<and> second dt = 0 \<and> microsecond dt = 0"

section \<open>The setpoint scheduler (controller.py)\<close>

text \<open>
  The thresholds of one device, as \<^verbatim>\<open>load_config\<close> has checked them: a dictionary from
  \<^verbatim>\<open>"lowest"\<close>, \<^verbatim>\<open>"preferred"\<close>, \<^verbatim>\<open>"highest"\<close> to a setting, and a setting is a dictionary
  from the unit name (\<^verbatim>\<open>"Fahrenheit"\<close>, \<^verbatim>\<open>"Celsius"\<close>) to a number.
\<close>

type_synonym setting = "rat dict"
type_synonym temperatures = "setting dict"

text \<open>
  \<^verbatim>\<open>d[k]\<close> where the key \<^verbatim>\<open>k\<close> comes from a JSON document and the dictionary has string
  keys: lists and objects are unhashable (\<^verbatim>\<open>TypeError\<close>), any other non-string is simply
  not a key.
\<close>

definition dict_get_json :: "'v dict \<Rightarrow> json \<Rightarrow> exn + 'v" where
  "dict_get_json d k =
     (case k of
        JStr s \<Rightarrow> dict_get d s
      | JArr _ \<Rightarrow> Inl TypeError
      | JObj _ \<Rightarrow> Inl TypeError
      | _ \<Rightarrow> Inl KeyError)"

text \<open>\<^verbatim>\<open>temperatures[name][device_units]\<close>.\<close>

definition threshold :: "temperatures \<Rightarrow> string \<Rightarrow> json \<Rightarrow> exn + rat" where
  "threshold temperatures name device_units =
     (case dict_get temperatures name of
        Inl e \<Rightarrow> Inl e
      | Inr s \<Rightarrow> dict_get_json s device_units)"

text \<open>
  \<^verbatim>\<open>j == x\<close> for a JSON value and a number: numbers compare by value, and Python's
  \<^verbatim>\<open>True\<close> and \<^verbatim>\<open>False\<close> are the integers 1 and 0.
\<close>

definition py_eq_num :: "json \<Rightarrow> rat \<Rightarrow> bool" where
  "py_eq_num j x =
     (case j of
        JNum y \<Rightarrow> y = x
      | JBool b \<Rightarrow> (if b then 1 else 0) = x
      | _ \<Rightarrow> False)"

text \<open>
  The condition of the inner \<^verbatim>\<open>if\<close> of \<^verbatim>\<open>update_values\<close>:
  \<^verbatim>\<open>values["thermostatSetpointStatus"] != "HoldUntil" or
  not is_x_minutes_in_future(values["nextPeriodTime"], 15, now)\<close>, with the short-circuit
  of \<^verbatim>\<open>or\<close>. \<^verbatim>\<open>strptime\<close> raises \<^verbatim>\<open>TypeError\<close> on anything but a string.
\<close>

definition hold_needs_update :: "json dict \<Rightarrow> datetime \<Rightarrow> exn + bool" where
  "hold_needs_update values now =
     (case dict_get values ''thermostatSetpointStatus'' of
        Inl e \<Rightarrow> Inl e
      | Inr status \<Rightarrow>
          if status \<noteq> JStr ''HoldUntil'' then Inr True
          else
            (case dict_get values ''nextPeriodTime'' of
               Inl e \<Rightarrow> Inl e
             | Inr (JStr time_str) \<Rightarrow>
                 (case is_x_minutes_in_future time_str 15 now of
                    Inl e \<Rightarrow> Inl e
                  | Inr b \<Rightarrow> Inr (\<not> b))
             | Inr _ \<Rightarrow> Inl TypeError))"

text \<open>
  \<^verbatim>\<open>update_values(values, temperatures, device_units, mode, setpoint)\<close>. The dictionary
  \<^verbatim>\<open>values\<close> is mutated in place, so every statement of the function is modelled as a
  function from the dictionary before to the dictionary after, together with whether it
  set \<^verbatim>\<open>values_changed\<close>.

  The statement \<^verbatim>\<open>if values["mode"] != mode: values["mode"] = mode\<close>.
\<close>

definition update_mode :: "json dict \<Rightarrow> string \<Rightarrow> exn + (json dict \<times> bool)" where
  "update_mode values mode =
     (case dict_get values ''mode'' of
        Inl e \<Rightarrow> Inl e
      | Inr m \<Rightarrow>
          if m \<noteq> JStr mode then Inr (AList.update ''mode'' (JStr mode) values, True)
          else Inr (values, False))"

text \<open>
  The statement \<^verbatim>\<open>if "heatCoolMode" in values and values["heatCoolMode"] != mode:
  values["heatCoolMode"] = mode\<close>.
\<close>

definition update_heat_cool_mode :: "json dict \<Rightarrow> string \<Rightarrow> json dict \<times> bool" where
  "update_heat_cool_mode values mode =
     (case map_of values ''heatCoolMode'' of
        None \<Rightarrow> (values, False)
      | Some hc \<Rightarrow>
          if hc \<noteq> JStr mode then (AList.update ''heatCoolMode'' (JStr mode) values, True)
          else (values, False))"

text \<open>
  The statement \<^verbatim>\<open>if values[setpoint] != temperatures["preferred"][device_units]:
  values[setpoint] = temperatures["preferred"][device_units]\<close>; the left operand is
  evaluated first.
\<close>

definition update_setpoint ::
  "json dict \<Rightarrow> temperatures \<Rightarrow> json \<Rightarrow> string \<Rightarrow> exn + (json dict \<times> bool)" where
  "update_setpoint values temperatures device_units setpoint =
     (case dict_get values setpoint of
        Inl e \<Rightarrow> Inl e
      | Inr sp \<Rightarrow>
          (case threshold temperatures ''preferred'' device_units of
             Inl e \<Rightarrow> Inl e
           | Inr preferred \<Rightarrow>
               if \<not> py_eq_num sp preferred
               then Inr (AList.update setpoint (JNum preferred) values, True)
               else Inr (values, False)))"

text \<open>
  The body of \<^verbatim>\<open>if values_changed:\<close>, with \<^verbatim>\<open>now\<close> the reading of
  \<^verbatim>\<open>datetime.datetime.now()\<close>. The result is the function's return value (\<open>None\<close> for
  Python's \<^verbatim>\<open>None\<close>, \<open>Some\<close> of the dictionary for \<^verbatim>\<open>return values\<close>) and the dictionary
  as the call leaves it. As in the source, \<^verbatim>\<open>return values\<close> belongs to the inner
  \<^verbatim>\<open>if\<close>: when the hold needs no update, control falls through to the final
  \<^verbatim>\<open>return None\<close>.
\<close>

definition update_hold :: "datetime \<Rightarrow> json dict \<Rightarrow> exn + (json dict option \<times> json dict)" where
  "update_hold now values =
     (case hold_needs_update values now of
        Inl e \<Rightarrow> Inl e
      | Inr True \<Rightarrow>
          (let values4 = AList.update ''thermostatSetpointStatus'' (JStr ''HoldUntil'') values
           in case add_minutes now 15 of
                Inl e \<Rightarrow> Inl e
              | Inr later \<Rightarrow>
                  (case round_up_to_quarter_hour later of
                     Inl e \<Rightarrow> Inl e
                   | Inr next_period \<Rightarrow>
                       (let values5 = AList.update ''nextPeriodTime''
                                        (JStr (strftime_HMS next_period)) values4
                        in Inr (Some values5, values5))))
      | Inr False \<Rightarrow> Inr (None, values))"

definition update_values ::
  "datetime \<Rightarrow> json dict \<Rightarrow> temperatures \<Rightarrow> json \<Rightarrow> string \<Rightarrow> string
     \<Rightarrow> exn + (json dict option \<times> json dict)" where
  "update_values now values temperatures device_units mode setpoint =
     (case update_mode values mode of
        Inl e \<Rightarrow> Inl e
      | Inr (values1, changed1) \<Rightarrow>
          (case update_heat_cool_mode values1 mode of
             (values2, changed2) \<Rightarrow>
               (case update_setpoint values2 temperatures device_units setpoint of
                  Inl e \<Rightarrow> Inl e
                | Inr (values3, changed3) \<Rightarrow>
                    if changed1 \<or> changed2 \<or> changed3 then update_hold now values3
                    else Inr (None, values3))))"

definition update_heat_values ::
  "datetime \<Rightarrow> json dict \<Rightarrow> temperatures \<Rightarrow> json \<Rightarrow> exn + (json dict option \<times> json dict)" where
  "update_heat_values now values temperatures device_units =
     update_values now values temperatures device_units ''Heat'' ''heatSetpoint''"

definition update_cool_values ::
  "datetime \<Rightarrow> json dict \<Rightarrow> temperatures \<Rightarrow> json \<Rightarrow> exn + (json dict option \<times> json dict)" where
  "update_cool_values now values temperatures device_units =
     update_values now values temperatures device_units ''Cool'' ''coolSetpoint''"

section \<open>Configuration and temperature units (controller.py)\<close>

text \<open>
  The configuration and the credentials after \<^verbatim>\<open>load_config\<close> and \<^verbatim>\<open>load_credentials\<close>
  have read them (file input and output is outside the model). \<^verbatim>\<open>location_prefs\<close> maps a
  location id to a dictionary from device id to the device's \<^verbatim>\<open>"temperatures"\<close> entry.
  A dictionary has each key once.
\<close>

record config =
  redirect_port :: int
  client_id :: string
  client_secret :: string
  credentials_fpath :: string
  location_prefs :: "temperatures dict dict"

record credentials =
  access_token :: string
  refresh_token :: string
  expiration_time :: string

text \<open>
  What the assertions of \<^verbatim>\<open>load_config\<close> require of a device's temperatures: each of
  the three settings is present and gives at least one of the two units.
\<close>

definition setting_names :: "string list" where
  "setting_names = [''lowest'', ''preferred'', ''highest'']"




text \<open>Python's \<^verbatim>\<open>round(x)\<close> with one argument: the nearest integer, ties to the even one.\<close>

definition py_round :: "rat \<Rightarrow> int" where
  "py_round x =
     (let f = \<lfloor>x\<rfloor>; d = x - of_int f
      in if d < 1 / 2 then f
         else if 1 / 2 < d then f + 1
         else if even f then f else f + 1)"

text \<open>The two \<^verbatim>\<open>if\<close> statements that \<^verbatim>\<open>add_missing_temperature_units\<close> runs on one setting.\<close>

definition fill_setting :: "setting \<Rightarrow> exn + setting" where
  "fill_setting s =
     (case (if map_of s ''Fahrenheit'' = None then
              (case dict_get s ''Celsius'' of
                 Inl e \<Rightarrow> Inl e
               | Inr celsius \<Rightarrow>
                   (let fahrenheit = celsius * 9 / 5 + 32;
                        fahrenheit = of_int (py_round fahrenheit)
                    in Inr (AList.update ''Fahrenheit'' fahrenheit s)))
            else Inr s) of
        Inl e \<Rightarrow> Inl e
      | Inr s1 \<Rightarrow>
          if map_of s1 ''Celsius'' = None then
            (case dict_get s1 ''Fahrenheit'' of
               Inl e \<Rightarrow> Inl e
             | Inr fahrenheit \<Rightarrow>
                 (let celsius = (fahrenheit - 32) * 5 / 9;
                      celsius = of_int (py_round (2 * celsius)) / 2
                  in Inr (AList.update ''Celsius'' celsius s1)))
          else Inr s1)"

text \<open>The loop \<^verbatim>\<open>for setting in ["lowest", "preferred", "highest"]\<close> on one device.\<close>

fun fill_settings :: "string list \<Rightarrow> temperatures \<Rightarrow> exn + temperatures" where
  "fill_settings [] t = Inr t"
| "fill_settings (name # names) t =
     (case dict_get t name of
        Inl e \<Rightarrow> Inl e
      | Inr s \<Rightarrow>
          (case fill_setting s of
             Inl e \<Rightarrow> Inl e
           | Inr s' \<Rightarrow> fill_settings names (AList.update name s' t)))"

text \<open>
  A loop over the entries of a dictionary that replaces each value and stops at the first
  exception: \<^verbatim>\<open>for dev_id in loc\<close> and \<^verbatim>\<open>for loc_id in config["location_prefs"]\<close>.
\<close>

fun for_each_value :: "('v \<Rightarrow> exn + 'v) \<Rightarrow> 'v dict \<Rightarrow> exn + 'v dict" where
  "for_each_value f [] = Inr []"
| "for_each_value f ((k, v) # d) =
     (case f v of
        Inl e \<Rightarrow> Inl e
      | Inr v' \<Rightarrow>
          (case for_each_value f d of
             Inl e \<Rightarrow> Inl e
           | Inr d' \<Rightarrow> Inr ((k, v') # d')))"

definition add_missing_temperature_units :: "config \<Rightarrow> exn + config" where
  "add_missing_temperature_units cfg =
     (case for_each_value (for_each_value (fill_settings setting_names)) (location_prefs cfg) of
        Inl e \<Rightarrow> Inl e
      | Inr prefs \<Rightarrow> Inr (cfg\<lparr> location_prefs := prefs \<rparr>))"

section \<open>The vendor API (oath2_honeywell.py)\<close>

text \<open>
  The three API functions build a request, send it and return
  \<^verbatim>\<open>(response.status_code == 200, response.json())\<close>. A call is identified by the
  function and its arguments.
\<close>

datatype call =
    GetLocationsAndDevices string string
  | RefreshAccessToken string string string
  | PostDeviceSettings string string string json "json dict"

text \<open>
  What the HTTP client gives back: a response with its status code and its body parsed
  as JSON (\<open>None\<close> when the body is not JSON), or an exception of the client itself.
\<close>

datatype http_reply =
    HttpResponse int "json option"
  | HttpFailure exn

text \<open>
  The history of a run: the API calls with their replies, the readings of the clock and
  the writes to the credential store, oldest first.
\<close>

datatype event =
    Api call http_reply
  | Now datetime
  | StoreWrite string credentials

text \<open>
  The world outside the program: the reply to a call and the reading of the clock may
  depend on everything that happened before.
\<close>

record env =
  http :: "event list \<Rightarrow> call \<Rightarrow> http_reply"
  clock :: "event list \<Rightarrow> datetime"

text \<open>
  One API function call: the reply is recorded; \<^verbatim>\<open>response.json()\<close> is evaluated whatever
  the status and raises on a body that is not JSON.
\<close>

definition api :: "env \<Rightarrow> event list \<Rightarrow> call \<Rightarrow> (exn + (bool \<times> json)) \<times> event list" where
  "api e tr c =
     (let r = http e tr c
      in (case r of
            HttpFailure x \<Rightarrow> Inl x
          | HttpResponse status body \<Rightarrow>
              (case body of
                 None \<Rightarrow> Inl JSONDecodeError
               | Some j \<Rightarrow> Inr (status = 200, j)),
          tr @ [Api c r]))"

definition get_locations_and_devices ::
  "env \<Rightarrow> event list \<Rightarrow> string \<Rightarrow> string \<Rightarrow> (exn + (bool \<times> json)) \<times> event list" where
  "get_locations_and_devices e tr cid token = api e tr (GetLocationsAndDevices cid token)"

definition refresh_access_token ::
  "env \<Rightarrow> event list \<Rightarrow> string \<Rightarrow> string \<Rightarrow> string \<Rightarrow> (exn + (bool \<times> json)) \<times> event list" where
  "refresh_access_token e tr cid secret token = api e tr (RefreshAccessToken cid secret token)"

definition post_device_settings ::
  "env \<Rightarrow> event list \<Rightarrow> string \<Rightarrow> string \<Rightarrow> string \<Rightarrow> json \<Rightarrow> json dict
     \<Rightarrow> (exn + (bool \<times> json)) \<times> event list" where
  "post_device_settings e tr cid token location_id device_id settings =
     api e tr (PostDeviceSettings cid token location_id device_id settings)"

text \<open>
  \<^verbatim>\<open>update_credentials\<close>: the stored credentials (as \<^verbatim>\<open>load_credentials\<close> reads them) with
  the given fields replaced are written back to the file.
\<close>

definition update_credentials ::
  "event list \<Rightarrow> string \<Rightarrow> credentials \<Rightarrow> string option \<Rightarrow> string option \<Rightarrow> string option
     \<Rightarrow> event list" where
  "update_credentials tr fpath stored a r x =
     (let creds1 = (case a of None \<Rightarrow> stored | Some v \<Rightarrow> stored\<lparr> access_token := v \<rparr>);
          creds2 = (case r of None \<Rightarrow> creds1 | Some v \<Rightarrow> creds1\<lparr> refresh_token := v \<rparr>);
          creds3 = (case x of None \<Rightarrow> creds2 | Some v \<Rightarrow> creds2\<lparr> expiration_time := v \<rparr>)
      in tr @ [StoreWrite fpath creds3])"

section \<open>The orchestrator (controller.py, \<^verbatim>\<open>main\<close>)\<close>

text \<open>Operations of Python on values that come from a JSON document.\<close>

text \<open>\<^verbatim>\<open>j[k]\<close> with a string \<^verbatim>\<open>k\<close>: only an object can be subscripted by a string.\<close>

definition subscript :: "json \<Rightarrow> string \<Rightarrow> exn + json" where
  "subscript j k = (case j of JObj d \<Rightarrow> dict_get d k | _ \<Rightarrow> Inl TypeError)"

text \<open>
  \<^verbatim>\<open>for x in j\<close>: the elements of a list, the keys of an object, the characters of a
  string; anything else is not iterable.
\<close>

definition py_iter :: "json \<Rightarrow> exn + json list" where
  "py_iter j =
     (case j of
        JArr xs \<Rightarrow> Inr xs
      | JObj d \<Rightarrow> Inr (map (\<lambda>(k, v). JStr k) d)
      | JStr s \<Rightarrow> Inr (map (\<lambda>c. JStr [c]) s)
      | _ \<Rightarrow> Inl TypeError)"

text \<open>\<^verbatim>\<open>k in d\<close> for a dictionary with string keys.\<close>

definition json_in_dict :: "json \<Rightarrow> 'v dict \<Rightarrow> exn + bool" where
  "json_in_dict k d =
     (case k of
        JStr s \<Rightarrow> Inr (map_of d s \<noteq> None)
      | JArr _ \<Rightarrow> Inl TypeError
      | JObj _ \<Rightarrow> Inl TypeError
      | _ \<Rightarrow> Inr False)"

text \<open>\<^verbatim>\<open>j < x\<close> and \<^verbatim>\<open>j > x\<close> for a number \<^verbatim>\<open>x\<close>: only numbers and booleans are ordered with it.\<close>

definition py_num :: "json \<Rightarrow> exn + rat" where
  "py_num j =
     (case j of
        JNum y \<Rightarrow> Inr y
      | JBool b \<Rightarrow> Inr (if b then 1 else 0)
      | _ \<Rightarrow> Inl TypeError)"

definition py_lt :: "json \<Rightarrow> rat \<Rightarrow> exn + bool" where
  "py_lt j x = (case py_num j of Inl e \<Rightarrow> Inl e | Inr y \<Rightarrow> Inr (y < x))"

definition py_gt :: "json \<Rightarrow> rat \<Rightarrow> exn + bool" where
  "py_gt j x = (case py_num j of Inl e \<Rightarrow> Inl e | Inr y \<Rightarrow> Inr (x < y))"

text \<open>
  How a block of statements inside \<^verbatim>\<open>main\<close> ends: it runs to its end, raises, or executes
  \<^verbatim>\<open>return n\<close>. And how \<^verbatim>\<open>main\<close> itself ends: it returns an exit code, or an exception
  leaves it.
\<close>

datatype flow = Continue | Raised exn | Returned int

datatype outcome = Exit int | Uncaught exn

text \<open>
  Lines 152 to 168: the first fetch of locations and devices, with one refresh and one
  retry. The lambda \<^verbatim>\<open>get_locs_and_devs\<close> reads \<^verbatim>\<open>creds["access_token"]\<close> when it is
  called; \<^verbatim>\<open>creds\<close> is never assigned, and the response of the refresh is only bound
  to a local variable.
\<close>

definition fetch_locations ::
  "env \<Rightarrow> config \<Rightarrow> credentials \<Rightarrow> event list \<Rightarrow> (outcome + json) \<times> event list" where
  "fetch_locations e cfg creds tr =
     (case get_locations_and_devices e tr (client_id cfg) (access_token creds) of
        (Inl x, tr1) \<Rightarrow> (Inl (Uncaught x), tr1)
      | (Inr (success, location_response), tr1) \<Rightarrow>
          if \<not> success then
            (case refresh_access_token e tr1 (client_id cfg) (client_secret cfg)
                    (refresh_token creds) of
               (Inl x, tr2) \<Rightarrow> (Inl (Uncaught x), tr2)
             | (Inr (success, response), tr2) \<Rightarrow>
                 if \<not> success then (Inl (Exit 1), tr2)
                 else
                   (case get_locations_and_devices e tr2 (client_id cfg) (access_token creds) of
                      (Inl x, tr3) \<Rightarrow> (Inl (Uncaught x), tr3)
                    | (Inr (success, location_response), tr3) \<Rightarrow>
                        if \<not> success then (Inl (Exit 2), tr3)
                        else (Inr location_response, tr3)))
          else (Inr location_response, tr1))"

text \<open>
  Lines 208 to 227: the push of the new settings of one device, with one refresh and one
  retry; \<^verbatim>\<open>post_dev_settings\<close> is called twice with the same arguments.
\<close>

definition push_settings ::
  "env \<Rightarrow> config \<Rightarrow> credentials \<Rightarrow> string \<Rightarrow> json \<Rightarrow> json dict \<Rightarrow> event list
     \<Rightarrow> flow \<times> event list" where
  "push_settings e cfg creds loc_id dev_id values tr =
     (case post_device_settings e tr (client_id cfg) (access_token creds) loc_id dev_id values of
        (Inl x, tr1) \<Rightarrow> (Raised x, tr1)
      | (Inr (success, response), tr1) \<Rightarrow>
          if \<not> success then
            (case refresh_access_token e tr1 (client_id cfg) (client_secret cfg)
                    (refresh_token creds) of
               (Inl x, tr2) \<Rightarrow> (Raised x, tr2)
             | (Inr (success, response), tr2) \<Rightarrow>
                 if \<not> success then (Returned 3, tr2)
                 else
                   (case post_device_settings e tr2 (client_id cfg) (access_token creds)
                           loc_id dev_id values of
                      (Inl x, tr3) \<Rightarrow> (Raised x, tr3)
                    | (Inr (success, response), tr3) \<Rightarrow>
                        if \<not> success then (Returned 4, tr3) else (Continue, tr3)))
          else (Continue, tr1))"

text \<open>
  Lines 185 to 198: the value of the variable \<^verbatim>\<open>values\<close> after the comparison of the
  indoor temperature with the thresholds. \<^verbatim>\<open>update_values\<close> subscripts its argument
  first, which raises \<^verbatim>\<open>TypeError\<close> unless it is an object.
\<close>

definition decide_values :: "datetime \<Rightarrow> temperatures \<Rightarrow> json \<Rightarrow> exn + json dict option" where
  "decide_values now temps device =
     (case subscript device ''changeableValues'' of
        Inl x \<Rightarrow> Inl x
      | Inr values \<Rightarrow>
     (case subscript device ''units'' of
        Inl x \<Rightarrow> Inl x
      | Inr units \<Rightarrow>
     (case subscript device ''indoorTemperature'' of
        Inl x \<Rightarrow> Inl x
      | Inr indoor \<Rightarrow>
     (case threshold temps ''lowest'' units of
        Inl x \<Rightarrow> Inl x
      | Inr lowest \<Rightarrow>
     (case py_lt indoor lowest of
        Inl x \<Rightarrow> Inl x
      | Inr True \<Rightarrow>
          (case values of
             JObj d \<Rightarrow> map_sum id fst (update_heat_values now d temps units)
           | _ \<Rightarrow> Inl TypeError)
      | Inr False \<Rightarrow>
     (case threshold temps ''highest'' units of
        Inl x \<Rightarrow> Inl x
      | Inr highest \<Rightarrow>
     (case py_gt indoor highest of
        Inl x \<Rightarrow> Inl x
      | Inr True \<Rightarrow>
          (case values of
             JObj d \<Rightarrow> map_sum id fst (update_cool_values now d temps units)
           | _ \<Rightarrow> Inl TypeError)
      | Inr False \<Rightarrow> Inr None)))))))"

text \<open>
  Lines 179 to 227: the body of the loop over the devices of a configured location
  \<^verbatim>\<open>loc_id\<close> whose preferences are \<^verbatim>\<open>devs\<close>. The clock reading that \<^verbatim>\<open>update_values\<close> may
  need is taken when the device is found in the preferences.
\<close>

definition process_device ::
  "env \<Rightarrow> config \<Rightarrow> credentials \<Rightarrow> string \<Rightarrow> temperatures dict \<Rightarrow> json \<Rightarrow> event list
     \<Rightarrow> flow \<times> event list" where
  "process_device e cfg creds loc_id devs device tr =
     (case subscript device ''deviceID'' of
        Inl x \<Rightarrow> (Raised x, tr)
      | Inr dev_id \<Rightarrow>
          (case json_in_dict dev_id devs of
             Inl x \<Rightarrow> (Raised x, tr)
           | Inr False \<Rightarrow> (Continue, tr)
           | Inr True \<Rightarrow>
               (case dict_get_json devs dev_id of
                  Inl x \<Rightarrow> (Raised x, tr)
                | Inr temps \<Rightarrow>
                    (let now = clock e tr; tr1 = tr @ [Now now]
                     in case decide_values now temps device of
                          Inl x \<Rightarrow> (Raised x, tr1)
                        | Inr None \<Rightarrow> (Continue, tr1)
                        | Inr (Some values) \<Rightarrow>
                            push_settings e cfg creds loc_id dev_id values tr1))))"

text \<open>The loop \<^verbatim>\<open>for device in location["devices"]\<close>.\<close>

fun process_devices ::
  "env \<Rightarrow> config \<Rightarrow> credentials \<Rightarrow> string \<Rightarrow> temperatures dict \<Rightarrow> json list \<Rightarrow> event list
     \<Rightarrow> flow \<times> event list" where
  "process_devices e cfg creds loc_id devs [] tr = (Continue, tr)"
| "process_devices e cfg creds loc_id devs (device # devices) tr =
     (case process_device e cfg creds loc_id devs device tr of
        (Continue, tr1) \<Rightarrow> process_devices e cfg creds loc_id devs devices tr1
      | (Raised x, tr1) \<Rightarrow> (Raised x, tr1)
      | (Returned n, tr1) \<Rightarrow> (Returned n, tr1))"

text \<open>
  Lines 172 to 227: the body of the loop over the locations. \<^verbatim>\<open>str_of\<close> is Python's
  built-in \<^verbatim>\<open>str\<close> on JSON values.
\<close>

definition process_location ::
  "env \<Rightarrow> (json \<Rightarrow> string) \<Rightarrow> config \<Rightarrow> credentials \<Rightarrow> json \<Rightarrow> event list
     \<Rightarrow> flow \<times> event list" where
  "process_location e str_of cfg creds location tr =
     (case subscript location ''locationID'' of
        Inl x \<Rightarrow> (Raised x, tr)
      | Inr location_id \<Rightarrow>
          (let loc_id = str_of location_id
           in case map_of (location_prefs cfg) loc_id of
                None \<Rightarrow> (Continue, tr)
              | Some devs \<Rightarrow>
                  (case subscript location ''devices'' of
                     Inl x \<Rightarrow> (Raised x, tr)
                   | Inr ds \<Rightarrow>
                       (case py_iter ds of
                          Inl x \<Rightarrow> (Raised x, tr)
                        | Inr devices \<Rightarrow> process_devices e cfg creds loc_id devs devices tr))))"

text \<open>The loop \<^verbatim>\<open>for location in location_response\<close>.\<close>

fun process_locations ::
  "env \<Rightarrow> (json \<Rightarrow> string) \<Rightarrow> config \<Rightarrow> credentials \<Rightarrow> json list \<Rightarrow> event list
     \<Rightarrow> flow \<times> event list" where
  "process_locations e str_of cfg creds [] tr = (Continue, tr)"
| "process_locations e str_of cfg creds (location # locations) tr =
     (case process_location e str_of cfg creds location tr of
        (Continue, tr1) \<Rightarrow> process_locations e str_of cfg creds locations tr1
      | (Raised x, tr1) \<Rightarrow> (Raised x, tr1)
      | (Returned n, tr1) \<Rightarrow> (Returned n, tr1))"

text \<open>
  Lines 170 to 238: the \<^verbatim>\<open>try\<close> statement around the loops and what follows it. A
  \<^verbatim>\<open>return\<close> inside the loops leaves \<^verbatim>\<open>main\<close> with its code; an exception is caught by
  \<^verbatim>\<open>except Exception\<close>, and then, as after a normal end of the loops, \<^verbatim>\<open>main\<close> reports
  what it found and returns 0. Printing is outside the model.
\<close>

definition device_phase ::
  "env \<Rightarrow> (json \<Rightarrow> string) \<Rightarrow> config \<Rightarrow> credentials \<Rightarrow> json \<Rightarrow> event list
     \<Rightarrow> outcome \<times> event list" where
  "device_phase e str_of cfg creds location_response tr =
     (case py_iter location_response of
        Inl x \<Rightarrow> (Exit 0, tr)
      | Inr locations \<Rightarrow>
          (case process_locations e str_of cfg creds locations tr of
             (Returned n, tr1) \<Rightarrow> (Exit n, tr1)
           | (Raised x, tr1) \<Rightarrow> (Exit 0, tr1)
           | (Continue, tr1) \<Rightarrow> (Exit 0, tr1)))"

text \<open>
  \<^verbatim>\<open>main\<close>, from the loaded configuration and credentials on. The result is how \<^verbatim>\<open>main\<close>
  ends and the history of the run.
\<close>

definition main :: "env \<Rightarrow> (json \<Rightarrow> string) \<Rightarrow> config \<Rightarrow> credentials \<Rightarrow> outcome \<times> event list" where
  "main e str_of config0 creds =
     (case add_missing_temperature_units config0 of
        Inl x \<Rightarrow> (Uncaught x, [])
      | Inr cfg \<Rightarrow>
          (case fetch_locations e cfg creds [] of
             (Inl out, tr) \<Rightarrow> (out, tr)
           | (Inr location_response, tr) \<Rightarrow>
               device_phase e str_of cfg creds location_response tr))"

section \<open>Predicates on the history of a run\<close>















section \<open>The redirect handler of the authorization flow (oath2_honeywell.py)\<close>





section \<open>Example inputs\<close>

text \<open>
  One configured location with one thermostat, given in Fahrenheit only, and the stored
  credentials.
\<close>

definition example_config :: config where
  "example_config =
     \<lparr> redirect_port = 8080, client_id = ''client-1'', client_secret = ''secret-1'',
       credentials_fpath = ''credentials.json'',
       location_prefs =
         [(''1001'',
           [(''LCC-1'',
             [(''lowest'', [(''Fahrenheit'', 65)]),
              (''preferred'', [(''Fahrenheit'', 68)]),
              (''highest'', [(''Fahrenheit'', 75)])])])] \<rparr>"

definition example_creds :: credentials where
  "example_creds =
     \<lparr> access_token = ''old-token'', refresh_token = ''refresh-1'', expiration_time = [] \<rparr>"

text \<open>A thermostat at 60 degrees Fahrenheit in cool mode, and the location that has it twice.\<close>

definition example_device :: json where
  "example_device =
     JObj [(''deviceID'', JStr ''LCC-1''), (''units'', JStr ''Fahrenheit''),
           (''indoorTemperature'', JNum 60),
           (''changeableValues'',
            JObj [(''mode'', JStr ''Cool''), (''heatSetpoint'', JNum 60),
                  (''coolSetpoint'', JNum 75),
                  (''thermostatSetpointStatus'', JStr ''NoHold''),
                  (''nextPeriodTime'', JStr ''00:00:00'')])]"

definition example_locations :: json where
  "example_locations =
     JArr [JObj [(''locationID'', JNum 1001), (''devices'', JArr [example_device, example_device])]]"

text \<open>The payload that \<open>update_heat_values\<close> computes for this thermostat at 13:50:00.\<close>

definition example_payload :: "json dict" where
  "example_payload =
     [(''mode'', JStr ''Heat''), (''heatSetpoint'', JNum 68), (''coolSetpoint'', JNum 75),
      (''thermostatSetpointStatus'', JStr ''HoldUntil''), (''nextPeriodTime'', JStr ''14:15:00'')]"

definition example_now :: datetime where
  "example_now = \<lparr> ordinal = 739000, hour = 13, minute = 50, second = 0, microsecond = 0 \<rparr>"

text \<open>Python's \<^verbatim>\<open>str\<close> as far as the example needs it.\<close>

definition example_str :: "json \<Rightarrow> string" where
  "example_str j =
     (case j of
        JStr s \<Rightarrow> s
      | JNum x \<Rightarrow> (if x = 1001 then ''1001'' else ''0'')
      | _ \<Rightarrow> ''None'')"

text \<open>
  An API that accepts only the access token \<^verbatim>\<open>new-token\<close>, which its token endpoint hands
  out on every refresh.
\<close>

definition new_tokens :: json where
  "new_tokens =
     JObj [(''access_token'', JStr ''new-token''), (''refresh_token'', JStr ''refresh-2''),
           (''expires_in'', JNum 1799)]"

definition token_checking_env :: env where
  "token_checking_env =
     \<lparr> http = (\<lambda>tr c.
         case c of
           GetLocationsAndDevices cid token \<Rightarrow>
             if token = ''new-token'' then HttpResponse 200 (Some example_locations)
             else HttpResponse 401 (Some (JObj []))
         | RefreshAccessToken cid secret token \<Rightarrow> HttpResponse 200 (Some new_tokens)
         | PostDeviceSettings cid token loc_id dev_id values \<Rightarrow>
             if token = ''new-token'' then HttpResponse 200 (Some (JObj []))
             else HttpResponse 401 (Some (JObj []))),
       clock = (\<lambda>tr. example_now) \<rparr>"

text \<open>An API that answers the calls of a run, whatever they are, from a fixed list of replies.\<close>

fun api_calls :: "event list \<Rightarrow> nat" where
  "api_calls [] = 0"
| "api_calls (Api c r # es) = Suc (api_calls es)"
| "api_calls (_ # es) = api_calls es"

definition scripted_env :: "http_reply list \<Rightarrow> env" where
  "scripted_env replies =
     \<lparr> http = (\<lambda>tr c.
         case drop (api_calls tr) replies of
           [] \<Rightarrow> HttpFailure RequestException
         | r # _ \<Rightarrow> r),
       clock = (\<lambda>tr. example_now) \<rparr>"

text \<open>Replies for three runs on the example: the configured thermostat is found twice.\<close>

definition failing_refresh_replies :: "http_reply list" where
  "failing_refresh_replies =
     [HttpResponse 200 (Some example_locations), HttpResponse 401 (Some (JObj [])),
      HttpResponse 502 None]"


definition expired_token_replies :: "http_reply list" where
  "expired_token_replies =
     [HttpResponse 200 (Some example_locations), HttpResponse 401 (Some (JObj [])),
      HttpResponse 200 (Some new_tokens), HttpResponse 401 (Some (JObj []))]"



section \<open>Auxiliary predicates\<close>

text \<open>
  An event that is compatible with the stored access token \<open>t\<close> being the only one in use:
  an API call that carries a token carries \<open>t\<close>, and nothing is written to the credential
  store.
\<close>

fun uses_token :: "string \<Rightarrow> event \<Rightarrow> bool" where
  "uses_token t (Api (GetLocationsAndDevices cid token) r) = (token = t)"
| "uses_token t (Api (PostDeviceSettings cid token loc_id dev_id values) r) = (token = t)"
| "uses_token t (Api (RefreshAccessToken cid secret token) r) = True"
| "uses_token t (Now now) = True"
| "uses_token t (StoreWrite fpath creds) = False"

definition only_adds :: "(event \<Rightarrow> bool) \<Rightarrow> event list \<Rightarrow> event list \<Rightarrow> bool" where
  "only_adds P tr tr' \<longleftrightarrow> (\<exists>ext. tr' = tr @ ext \<and> list_all P ext)"

section \<open>Properties of the time helpers\<close>


lemma divmod_step:
  fixes q r d :: int
  assumes "0 \<le> r" "r < d"
  shows "(q * d + r) div d = q" and "(q * d + r) mod d = r"
  using assms by (simp_all add: div_pos_pos_trivial)

lemma of_micros_micros:
  assumes "0 \<le> hour dt" "hour dt < 24" "0 \<le> minute dt" "minute dt < 60"
    "0 \<le> second dt" "second dt < 60" "0 \<le> microsecond dt" "microsecond dt < 1000000"
  shows "of_micros (micros dt) = dt"
proof -
  let ?h = "hour dt" and ?m = "minute dt" and ?s = "second dt" and ?u = "microsecond dt"
  let ?t = "micros dt"
  have t1: "?t = ordinal dt * 86400000000 + (?h * 3600000000 + ?m * 60000000 + ?s * 1000000 + ?u)"
    by (simp add: micros_def algebra_simps)
  have t2: "?t = (ordinal dt * 24 + ?h) * 3600000000 + (?m * 60000000 + ?s * 1000000 + ?u)"
    by (simp add: micros_def algebra_simps)
  have t3: "?t = ((ordinal dt * 24 + ?h) * 60 + ?m) * 60000000 + (?s * 1000000 + ?u)"
    by (simp add: micros_def algebra_simps)
  have t4: "?t = (((ordinal dt * 24 + ?h) * 60 + ?m) * 60 + ?s) * 1000000 + ?u"
    by (simp add: micros_def algebra_simps)
  have r1: "0 \<le> ?h * 3600000000 + ?m * 60000000 + ?s * 1000000 + ?u"
       "?h * 3600000000 + ?m * 60000000 + ?s * 1000000 + ?u < 86400000000"
    using assms by simp_all
  have r2: "0 \<le> ?m * 60000000 + ?s * 1000000 + ?u" "?m * 60000000 + ?s * 1000000 + ?u < 3600000000"
    using assms by simp_all
  have r3: "0 \<le> ?s * 1000000 + ?u" "?s * 1000000 + ?u < 60000000"
    using assms by simp_all
  have d1: "?t div 86400000000 = ordinal dt"
    and m1: "?t mod 86400000000 = ?h * 3600000000 + ?m * 60000000 + ?s * 1000000 + ?u"
    unfolding t1 using divmod_step[OF r1] by blast+
  have m2: "?t mod 3600000000 = ?m * 60000000 + ?s * 1000000 + ?u"
    unfolding t2 using divmod_step[OF r2] by blast
  have m3: "?t mod 60000000 = ?s * 1000000 + ?u"
    unfolding t3 using divmod_step[OF r3] by blast
  have m4: "?t mod 1000000 = ?u"
    unfolding t4 using divmod_step[OF assms(7,8)] by blast
  have h: "(?h * 3600000000 + ?m * 60000000 + ?s * 1000000 + ?u) div 3600000000 = ?h"
    using divmod_step(1)[OF r2, of ?h] by (simp add: algebra_simps)
  have m: "(?m * 60000000 + ?s * 1000000 + ?u) div 60000000 = ?m"
    using divmod_step(1)[OF r3, of ?m] by (simp add: algebra_simps)
  have s: "(?s * 1000000 + ?u) div 1000000 = ?s"
    using divmod_step(1)[OF assms(7,8), of ?s] by (simp add: algebra_simps)
  show ?thesis
    unfolding of_micros_def d1 m1 m2 m3 m4 h m s by simp
qed

lemma micros_shift_days: "micros dt + n * 86400000000 = micros (dt\<lparr>ordinal := ordinal dt + n\<rparr>)"
  by (simp add: micros_def algebra_simps)

lemma add_days_valid:
  assumes "valid_datetime dt"
  shows "add_days dt n =
     (if 0 < ordinal dt + n \<and> ordinal dt + n \<le> MAXORDINAL
      then Inr (dt\<lparr>ordinal := ordinal dt + n\<rparr>) else Inl OverflowError)"
proof -
  have "of_micros (micros (dt\<lparr>ordinal := ordinal dt + n\<rparr>)) = dt\<lparr>ordinal := ordinal dt + n\<rparr>"
    using assms by (intro of_micros_micros) (simp_all add: valid_datetime_def)
  then show ?thesis
    by (simp add: add_days_def add_micros_def micros_shift_days Let_def)
qed


lemma div15_cases:
  fixes m :: int
  assumes "0 \<le> m" "m < 60"
  shows "(m < 15 \<and> m div 15 = 0) \<or> (15 \<le> m \<and> m < 30 \<and> m div 15 = 1) \<or>
         (30 \<le> m \<and> m < 45 \<and> m div 15 = 2) \<or> (45 \<le> m \<and> m div 15 = 3)"
proof -
  have "m < 15 \<Longrightarrow> m div 15 = 0" using assms by simp
  moreover have "15 \<le> m \<Longrightarrow> m < 30 \<Longrightarrow> m div 15 = 1" by linarith
  moreover have "30 \<le> m \<Longrightarrow> m < 45 \<Longrightarrow> m div 15 = 2" by linarith
  moreover have "45 \<le> m \<Longrightarrow> m div 15 = 3" using assms by linarith
  ultimately show ?thesis by linarith
qed

lemma next_minute_eq:
  fixes m :: int
  assumes "0 \<le> m" "m < 60"
  shows "(m div 15 + 1) * 15 mod 60 = (if m < 45 then (m div 15 + 1) * 15 else 0)"
  using div15_cases[OF assms] by auto

lemma aligned_iff:
  assumes "valid_datetime dt"
  shows "quarter_aligned dt \<longleftrightarrow> (second dt = 0 \<and> microsecond dt = 0 \<and> minute dt mod 15 = 0)"
  using assms unfolding quarter_aligned_def valid_datetime_def by auto

lemma round_up_result:
  assumes v: "valid_datetime dt" and na: "\<not> quarter_aligned dt"
  shows "round_up_to_quarter_hour dt =
    (if minute dt < 45 then
       Inr (dt\<lparr> minute := (minute dt div 15 + 1) * 15, second := 0, microsecond := 0 \<rparr>)
     else if hour dt < 23 then
       Inr (dt\<lparr> hour := hour dt + 1, minute := 0, second := 0, microsecond := 0 \<rparr>)
     else if ordinal dt < MAXORDINAL then
       Inr (dt\<lparr> ordinal := ordinal dt + 1, hour := 0, minute := 0, second := 0, microsecond := 0 \<rparr>)
     else Inl OverflowError)"
proof -
  have c: "(second dt = 0 \<and> microsecond dt = 0 \<and> minute dt mod 15 = 0) = False"
    using v na by (simp add: aligned_iff)
  have m: "0 \<le> minute dt" "minute dt < 60" and h: "0 \<le> hour dt" "hour dt < 24"
    and o: "1 \<le> ordinal dt" "ordinal dt \<le> MAXORDINAL"
    using v by (simp_all add: valid_datetime_def)
  note nm = next_minute_eq[OF m]
  have pos: "((minute dt div 15 + 1) * 15 = 0) = False"
    using div15_cases[OF m] by auto
  show ?thesis
  proof (cases "minute dt < 45")
    case True
    then show ?thesis
      unfolding round_up_to_quarter_hour_def Let_def nm c by (simp only: if_True if_False pos)
  next
    case False
    show ?thesis
    proof (cases "hour dt < 23")
      case True
      then show ?thesis
        using False unfolding round_up_to_quarter_hour_def Let_def nm c by simp
    next
      case h23: False
      then have "hour dt = 23" using h by simp
      then show ?thesis
        using False o unfolding round_up_to_quarter_hour_def Let_def nm c add_days_valid[OF v]
        by simp
    qed
  qed
qed

lemma round_up_aligned: "quarter_aligned dt \<Longrightarrow> round_up_to_quarter_hour dt = Inr dt"
  by (auto simp: quarter_aligned_def round_up_to_quarter_hour_def)

lemma datetime_eq_iff:
  fixes r r' :: datetime
  shows "r = r' \<longleftrightarrow> ordinal r = ordinal r' \<and> hour r = hour r' \<and> minute r = minute r'
        \<and> second r = second r' \<and> microsecond r = microsecond r'"
  by auto

lemma least_same_hour:
  assumes v: "valid_datetime dt"
    and k: "k \<in> {15, 30, 45}" "minute dt < k" "\<forall>x\<in>{0, 15, 30, 45}. minute dt < x \<longrightarrow> k \<le> x"
    and r: "r = dt\<lparr> minute := k, second := 0, microsecond := 0 \<rparr>"
  shows "valid_datetime r" "quarter_aligned r" "dt_less dt r"
    "valid_datetime r' \<and> quarter_aligned r' \<and> dt_less dt r' \<longrightarrow> dt_le r r'"
proof -
  show "valid_datetime r" using v k(1) unfolding r valid_datetime_def by auto
  show "quarter_aligned r" using k(1) unfolding r quarter_aligned_def by auto
  show "dt_less dt r" using k(2) unfolding r dt_less_def by simp
  show "valid_datetime r' \<and> quarter_aligned r' \<and> dt_less dt r' \<longrightarrow> dt_le r r'"
  proof
    assume a: "valid_datetime r' \<and> quarter_aligned r' \<and> dt_less dt r'"
    then have z: "second r' = 0" "microsecond r' = 0" and mr: "minute r' \<in> {0, 15, 30, 45}"
      by (simp_all add: quarter_aligned_def)
    have sd: "0 \<le> second dt" "0 \<le> microsecond dt" using v by (simp_all add: valid_datetime_def)
    from a have l: "ordinal dt < ordinal r' \<or> (ordinal dt = ordinal r' \<and>
      (hour dt < hour r' \<or> (hour dt = hour r' \<and> minute dt < minute r')))"
      unfolding dt_less_def z using sd by linarith
    have "minute dt < minute r' \<Longrightarrow> k \<le> minute r'" using k(3) mr by blast
    with l have "ordinal dt < ordinal r' \<or> (ordinal dt = ordinal r' \<and>
      (hour dt < hour r' \<or> (hour dt = hour r' \<and> (k < minute r' \<or> k = minute r'))))"
      by fastforce
    then show "dt_le r r'"
      unfolding dt_le_def datetime_eq_iff dt_less_def r z by auto
  qed
qed

lemma least_next_hour:
  assumes v: "valid_datetime dt" and m: "45 \<le> minute dt" and h: "hour dt < 23"
    and na: "\<not> quarter_aligned dt"
    and r: "r = dt\<lparr> hour := hour dt + 1, minute := 0, second := 0, microsecond := 0 \<rparr>"
  shows "valid_datetime r" "quarter_aligned r" "dt_less dt r"
    "valid_datetime r' \<and> quarter_aligned r' \<and> dt_less dt r' \<longrightarrow> dt_le r r'"
proof -
  show "valid_datetime r" using v h unfolding r valid_datetime_def by auto
  show "quarter_aligned r" unfolding r quarter_aligned_def by simp
  show "dt_less dt r" unfolding r dt_less_def by simp
  show "valid_datetime r' \<and> quarter_aligned r' \<and> dt_less dt r' \<longrightarrow> dt_le r r'"
  proof
    assume a: "valid_datetime r' \<and> quarter_aligned r' \<and> dt_less dt r'"
    then have z: "second r' = 0" "microsecond r' = 0" and mr: "minute r' \<in> {0, 15, 30, 45}"
      by (simp_all add: quarter_aligned_def)
    have sd: "0 \<le> second dt" "0 \<le> microsecond dt" using v by (simp_all add: valid_datetime_def)
    have nm: "\<not> minute dt < minute r'" using m mr by auto
    have ne: "minute dt = minute r' \<Longrightarrow> second dt = 0 \<and> microsecond dt = 0 \<Longrightarrow> False"
      using na mr unfolding quarter_aligned_def by simp
    from a have "ordinal dt < ordinal r' \<or> (ordinal dt = ordinal r' \<and> hour dt < hour r')"
      unfolding dt_less_def z using sd nm by linarith
    moreover have "0 \<le> minute r'" using mr by auto
    ultimately have "ordinal dt < ordinal r' \<or> (ordinal dt = ordinal r' \<and>
      (hour dt + 1 < hour r' \<or> (hour dt + 1 = hour r' \<and> (0 < minute r' \<or> 0 = minute r'))))"
      by linarith
    then show "dt_le r r'"
      unfolding dt_le_def datetime_eq_iff dt_less_def r z by auto
  qed
qed

lemma least_next_day:
  assumes v: "valid_datetime dt" and m: "45 \<le> minute dt" and h: "hour dt = 23"
    and o: "ordinal dt < MAXORDINAL"
    and na: "\<not> quarter_aligned dt"
    and r: "r = dt\<lparr> ordinal := ordinal dt + 1, hour := 0, minute := 0, second := 0, microsecond := 0 \<rparr>"
  shows "valid_datetime r" "quarter_aligned r" "dt_less dt r"
    "valid_datetime r' \<and> quarter_aligned r' \<and> dt_less dt r' \<longrightarrow> dt_le r r'"
proof -
  show "valid_datetime r" using v o unfolding r valid_datetime_def by auto
  show "quarter_aligned r" unfolding r quarter_aligned_def by simp
  show "dt_less dt r" unfolding r dt_less_def by simp
  show "valid_datetime r' \<and> quarter_aligned r' \<and> dt_less dt r' \<longrightarrow> dt_le r r'"
  proof
    assume a: "valid_datetime r' \<and> quarter_aligned r' \<and> dt_less dt r'"
    then have z: "second r' = 0" "microsecond r' = 0" and mr: "minute r' \<in> {0, 15, 30, 45}"
      and hr: "0 \<le> hour r'" "hour r' < 24"
      by (simp_all add: quarter_aligned_def valid_datetime_def)
    have sd: "0 \<le> second dt" "0 \<le> microsecond dt" using v by (simp_all add: valid_datetime_def)
    have nm: "\<not> minute dt < minute r'" using m mr by auto
    from a have "ordinal dt < ordinal r'"
      unfolding dt_less_def z using sd nm h hr by linarith
    moreover have "0 \<le> minute r'" using mr by auto
    ultimately have "ordinal dt + 1 < ordinal r' \<or> (ordinal dt + 1 = ordinal r' \<and>
      (0 < hour r' \<or> (0 = hour r' \<and> (0 < minute r' \<or> 0 = minute r'))))"
      using hr by linarith
    then show "dt_le r r'"
      unfolding dt_le_def datetime_eq_iff dt_less_def r z by auto
  qed
qed

lemma next_minute_least:
  fixes m :: int
  assumes "0 \<le> m" "m < 45"
  shows "(m div 15 + 1) * 15 \<in> {15, 30, 45}" "m < (m div 15 + 1) * 15"
    "\<forall>x\<in>{0, 15, 30, 45}. m < x \<longrightarrow> (m div 15 + 1) * 15 \<le> x"
  using div15_cases[of m] assms by auto

text \<open>
  Claim C5, as the code has it. For a valid date-time, \<open>round_up_to_quarter_hour\<close> returns an
  aligned input unchanged. For any other input that is not in the last quarter hour of
  the last representable day (9999-12-31), it returns the least quarter-hour-aligned
  date-time strictly after the input, rolling over the hour and the day. In the last
  quarter hour of 9999-12-31 no such date-time exists and the day roll-over
  \<^verbatim>\<open>dt += timedelta(days=1)\<close> raises \<^verbatim>\<open>OverflowError\<close>.
\<close>

theorem round_up_to_quarter_hour_least:
  assumes v: "valid_datetime dt"
  shows "(quarter_aligned dt \<longrightarrow> round_up_to_quarter_hour dt = Inr dt) \<and>
    (\<not> quarter_aligned dt \<and> (ordinal dt < MAXORDINAL \<or> hour dt < 23 \<or> minute dt < 45) \<longrightarrow>
       (\<exists>r. round_up_to_quarter_hour dt = Inr r \<and> valid_datetime r \<and> quarter_aligned r \<and>
            dt_less dt r \<and>
            (\<forall>r'. valid_datetime r' \<and> quarter_aligned r' \<and> dt_less dt r' \<longrightarrow> dt_le r r'))) \<and>
    (\<not> quarter_aligned dt \<and> ordinal dt = MAXORDINAL \<and> hour dt = 23 \<and> 45 \<le> minute dt \<longrightarrow>
       round_up_to_quarter_hour dt = Inl OverflowError)"
proof (intro conjI impI)
  assume "quarter_aligned dt"
  then show "round_up_to_quarter_hour dt = Inr dt" by (rule round_up_aligned)
next
  assume a: "\<not> quarter_aligned dt \<and> ordinal dt = MAXORDINAL \<and> hour dt = 23 \<and> 45 \<le> minute dt"
  then show "round_up_to_quarter_hour dt = Inl OverflowError"
    using round_up_result[OF v] by simp
next
  assume a: "\<not> quarter_aligned dt \<and> (ordinal dt < MAXORDINAL \<or> hour dt < 23 \<or> minute dt < 45)"
  then have na: "\<not> quarter_aligned dt" by simp
  note res = round_up_result[OF v na]
  have m: "0 \<le> minute dt" and h: "hour dt < 24" using v by (simp_all add: valid_datetime_def)
  consider (A) "minute dt < 45" | (B) "45 \<le> minute dt" "hour dt < 23"
    | (C) "45 \<le> minute dt" "hour dt = 23" "ordinal dt < MAXORDINAL"
    using a h by linarith
  then show "\<exists>r. round_up_to_quarter_hour dt = Inr r \<and> valid_datetime r \<and> quarter_aligned r \<and>
            dt_less dt r \<and>
            (\<forall>r'. valid_datetime r' \<and> quarter_aligned r' \<and> dt_less dt r' \<longrightarrow> dt_le r r')"
  proof cases
    case A
    let ?r = "dt\<lparr> minute := (minute dt div 15 + 1) * 15, second := 0, microsecond := 0 \<rparr>"
    have "round_up_to_quarter_hour dt = Inr ?r" using res A by simp
    with least_same_hour[OF v next_minute_least[OF m A] refl] show ?thesis by blast
  next
    case B
    let ?r = "dt\<lparr> hour := hour dt + 1, minute := 0, second := 0, microsecond := 0 \<rparr>"
    have "round_up_to_quarter_hour dt = Inr ?r" using res B by simp
    with least_next_hour[OF v B na refl] show ?thesis by blast
  next
    case C
    let ?r = "dt\<lparr> ordinal := ordinal dt + 1, hour := 0, minute := 0, second := 0, microsecond := 0 \<rparr>"
    have "round_up_to_quarter_hour dt = Inr ?r" using res C by simp
    with least_next_day[OF v C na refl] show ?thesis by blast
  qed
qed

theorem round_up_to_quarter_hour_least_witness:
  "valid_datetime \<lparr> ordinal = 739000, hour = 23, minute = 52, second = 0, microsecond = 0 \<rparr> \<and>
   \<not> quarter_aligned \<lparr> ordinal = 739000, hour = 23, minute = 52, second = 0, microsecond = 0 \<rparr> \<and>
   round_up_to_quarter_hour \<lparr> ordinal = 739000, hour = 23, minute = 52, second = 0, microsecond = 0 \<rparr>
     = Inr \<lparr> ordinal = 739001, hour = 0, minute = 0, second = 0, microsecond = 0 \<rparr> \<and>
   quarter_aligned \<lparr> ordinal = 739001, hour = 0, minute = 0, second = 0, microsecond = 0 \<rparr> \<and>
   dt_less \<lparr> ordinal = 739000, hour = 23, minute = 52, second = 0, microsecond = 0 \<rparr>
           \<lparr> ordinal = 739001, hour = 0, minute = 0, second = 0, microsecond = 0 \<rparr>"
proof -
  let ?d = "\<lparr> ordinal = 739000, hour = 23, minute = 52, second = 0, microsecond = 0 \<rparr>"
  have v: "valid_datetime ?d"
    by (simp add: valid_datetime_def MAXORDINAL_def)
  have n: "\<not> quarter_aligned ?d \<and> (ordinal ?d < MAXORDINAL \<or> hour ?d < 23 \<or> minute ?d < 45)"
    by (simp add: quarter_aligned_def MAXORDINAL_def)
  have e: "round_up_to_quarter_hour ?d
      = Inr \<lparr> ordinal = 739001, hour = 0, minute = 0, second = 0, microsecond = 0 \<rparr>"
    by (simp add: round_up_to_quarter_hour_def add_days_def add_micros_def micros_def
        of_micros_def MAXORDINAL_def)
  from round_up_to_quarter_hour_least[OF v] n
  obtain r where "round_up_to_quarter_hour ?d = Inr r" "quarter_aligned r" "dt_less ?d r"
    by blast
  with e v n show ?thesis by simp
qed

text \<open>
  The claim as stated (a result for every timestamp) fails on the last day of the
  calendar: at 9999-12-31 23:52:00 the function raises instead of returning.
\<close>

theorem round_up_to_quarter_hour_counterexample:
  "valid_datetime \<lparr> ordinal = 3652059, hour = 23, minute = 52, second = 0, microsecond = 0 \<rparr> \<and>
   \<not> quarter_aligned \<lparr> ordinal = 3652059, hour = 23, minute = 52, second = 0, microsecond = 0 \<rparr> \<and>
   round_up_to_quarter_hour \<lparr> ordinal = 3652059, hour = 23, minute = 52, second = 0, microsecond = 0 \<rparr>
     = Inl OverflowError"
  by (simp add: valid_datetime_def quarter_aligned_def round_up_to_quarter_hour_def add_days_def
      add_micros_def micros_def of_micros_def MAXORDINAL_def)

text \<open>
  Claim C7. \<open>is_x_minutes_in_future\<close> compares with \<^verbatim>\<open>>\<close>: with \<^verbatim>\<open>"14:00:00"\<close> and 15
  minutes it answers true at 13:44:00 and false at 13:46:00, and it also answers false at
  13:45:00, when the time is exactly (hence at least) 15 minutes in the future.
\<close>

theorem is_x_minutes_in_future_boundary:
  "is_x_minutes_in_future ''14:00:00'' 15
     \<lparr> ordinal = 739000, hour = 13, minute = 44, second = 0, microsecond = 0 \<rparr> = Inr True \<and>
   is_x_minutes_in_future ''14:00:00'' 15
     \<lparr> ordinal = 739000, hour = 13, minute = 46, second = 0, microsecond = 0 \<rparr> = Inr False \<and>
   is_x_minutes_in_future ''14:00:00'' 15
     \<lparr> ordinal = 739000, hour = 13, minute = 45, second = 0, microsecond = 0 \<rparr> = Inr False"
  by (simp add: is_x_minutes_in_future_def strptime_HMS_def digit_val_def add_minutes_def
      add_micros_def micros_def of_micros_def MAXORDINAL_def dt_less_def)

section \<open>Properties of the setpoint scheduler\<close>


lemma dict_get_Inr: "dict_get d k = Inr v \<longleftrightarrow> map_of d k = Some v"
  by (simp add: dict_get_def split: option.splits)

lemma update_mode_post:
  assumes "update_mode values mode = Inr (values1, c)"
  shows "map_of values1 = (map_of values)(''mode'' \<mapsto> JStr mode)"
  using assms
  by (auto simp: update_mode_def dict_get_Inr update_conv' split: sum.splits if_splits)

lemma update_mode_idem:
  assumes "map_of values ''mode'' = Some (JStr mode)"
  shows "update_mode values mode = Inr (values, False)"
  using assms by (simp add: update_mode_def dict_get_def)

lemma update_heat_cool_mode_post:
  assumes "update_heat_cool_mode values mode = (values2, c)"
  shows "map_of values2 = (if map_of values ''heatCoolMode'' = None then map_of values
                           else (map_of values)(''heatCoolMode'' \<mapsto> JStr mode))"
  using assms
  by (auto simp: update_heat_cool_mode_def update_conv' split: option.splits if_splits)

lemma update_heat_cool_mode_idem:
  assumes "map_of values ''heatCoolMode'' = None \<or> map_of values ''heatCoolMode'' = Some (JStr mode)"
  shows "update_heat_cool_mode values mode = (values, False)"
  using assms by (auto simp: update_heat_cool_mode_def)

lemma update_setpoint_post:
  assumes "update_setpoint values temperatures device_units setpoint = Inr (values3, c)"
  obtains sp preferred where
    "threshold temperatures ''preferred'' device_units = Inr preferred"
    "map_of values3 setpoint = Some sp" "py_eq_num sp preferred"
    "\<And>k. k \<noteq> setpoint \<Longrightarrow> map_of values3 k = map_of values k"
  using assms
  by (auto simp: update_setpoint_def dict_get_Inr update_conv' py_eq_num_def
      split: sum.splits if_splits)

lemma update_setpoint_idem:
  assumes "threshold temperatures ''preferred'' device_units = Inr preferred"
    "map_of values setpoint = Some sp" "py_eq_num sp preferred"
  shows "update_setpoint values temperatures device_units setpoint = Inr (values, False)"
  using assms by (simp add: update_setpoint_def dict_get_def)

lemma update_hold_post:
  assumes "update_hold now values = Inr (ret, values')"
    and "k \<noteq> ''thermostatSetpointStatus''" "k \<noteq> ''nextPeriodTime''"
  shows "map_of values' k = map_of values k"
  using assms
  by (auto simp: update_hold_def update_conv' Let_def split: sum.splits bool.splits)

text \<open>
  Claim C8. When a call of \<open>update_values\<close> for a setpoint field (\<^verbatim>\<open>heatSetpoint\<close> or
  \<^verbatim>\<open>coolSetpoint\<close>) has returned, a second call on the dictionary it left, with the same
  thresholds, unit, mode and setpoint field and at any later clock reading, returns
  \<^verbatim>\<open>None\<close> and changes nothing: no field is dirty.
\<close>

theorem update_values_idempotent:
  assumes first: "update_values now values temperatures device_units mode setpoint = Inr (ret, values')"
    and sp: "setpoint \<in> {''heatSetpoint'', ''coolSetpoint''}"
  shows "update_values now' values' temperatures device_units mode setpoint = Inr (None, values')"
proof -
  from first obtain values1 c1 where 1: "update_mode values mode = Inr (values1, c1)"
    by (auto simp: update_values_def split: sum.splits)
  obtain values2 c2 where 2: "update_heat_cool_mode values1 mode = (values2, c2)"
    by fastforce
  from first 1 2 obtain values3 c3 where
    3: "update_setpoint values2 temperatures device_units setpoint = Inr (values3, c3)"
    by (auto simp: update_values_def split: sum.splits)
  from first 1 2 3 have 4: "values' = values3 \<or> update_hold now values3 = Inr (ret, values')"
    by (auto simp: update_values_def split: if_splits)
  have k: "setpoint \<noteq> ''mode''" "setpoint \<noteq> ''heatCoolMode''"
    "setpoint \<noteq> ''thermostatSetpointStatus''" "setpoint \<noteq> ''nextPeriodTime''"
    using sp by auto
  from update_setpoint_post[OF 3] obtain s preferred where
    p: "threshold temperatures ''preferred'' device_units = Inr preferred"
    and s: "map_of values3 setpoint = Some s" "py_eq_num s preferred"
    and o: "\<And>k. k \<noteq> setpoint \<Longrightarrow> map_of values3 k = map_of values2 k"
    by blast
  have m3: "map_of values3 ''mode'' = Some (JStr mode)"
    using o[of "''mode''"] k update_heat_cool_mode_post[OF 2] update_mode_post[OF 1]
    by (simp split: if_splits)
  have h3: "map_of values3 ''heatCoolMode'' = None \<or> map_of values3 ''heatCoolMode'' = Some (JStr mode)"
    using o[of "''heatCoolMode''"] k update_heat_cool_mode_post[OF 2]
    by (simp split: if_splits)
  have same: "map_of values' k = map_of values3 k"
    if "k \<noteq> ''thermostatSetpointStatus''" "k \<noteq> ''nextPeriodTime''" for k
    using 4 update_hold_post[OF _ that] by blast
  have m: "map_of values' ''mode'' = Some (JStr mode)"
    using m3 same[of "''mode''"] by simp
  have h: "map_of values' ''heatCoolMode'' = None \<or> map_of values' ''heatCoolMode'' = Some (JStr mode)"
    using h3 same[of "''heatCoolMode''"] by simp
  have s': "map_of values' setpoint = Some s"
    using s(1) same[of setpoint] k by simp
  show ?thesis
    unfolding update_values_def
    by (simp add: update_mode_idem[OF m] update_heat_cool_mode_idem[OF h]
        update_setpoint_idem[OF p s' s(2)])
qed

theorem update_values_idempotent_witness:
  "update_values \<lparr> ordinal = 739000, hour = 13, minute = 50, second = 0, microsecond = 0 \<rparr>
     [(''mode'', JStr ''Cool''), (''heatSetpoint'', JNum 60),
      (''thermostatSetpointStatus'', JStr ''NoHold''), (''nextPeriodTime'', JStr ''14:00:00'')]
     [(''preferred'', [(''Fahrenheit'', 68)])] (JStr ''Fahrenheit'') ''Heat'' ''heatSetpoint''
   = Inr (Some [(''mode'', JStr ''Heat''), (''heatSetpoint'', JNum 68),
                (''thermostatSetpointStatus'', JStr ''HoldUntil''),
                (''nextPeriodTime'', JStr ''14:15:00'')],
          [(''mode'', JStr ''Heat''), (''heatSetpoint'', JNum 68),
           (''thermostatSetpointStatus'', JStr ''HoldUntil''),
           (''nextPeriodTime'', JStr ''14:15:00'')]) \<and>
   update_values \<lparr> ordinal = 739000, hour = 13, minute = 50, second = 1, microsecond = 0 \<rparr>
     [(''mode'', JStr ''Heat''), (''heatSetpoint'', JNum 68),
      (''thermostatSetpointStatus'', JStr ''HoldUntil''), (''nextPeriodTime'', JStr ''14:15:00'')]
     [(''preferred'', [(''Fahrenheit'', 68)])] (JStr ''Fahrenheit'') ''Heat'' ''heatSetpoint''
   = Inr (None, [(''mode'', JStr ''Heat''), (''heatSetpoint'', JNum 68),
                 (''thermostatSetpointStatus'', JStr ''HoldUntil''),
                 (''nextPeriodTime'', JStr ''14:15:00'')])"
proof -
  have first:
    "update_values \<lparr> ordinal = 739000, hour = 13, minute = 50, second = 0, microsecond = 0 \<rparr>
       [(''mode'', JStr ''Cool''), (''heatSetpoint'', JNum 60),
        (''thermostatSetpointStatus'', JStr ''NoHold''), (''nextPeriodTime'', JStr ''14:00:00'')]
       [(''preferred'', [(''Fahrenheit'', 68)])] (JStr ''Fahrenheit'') ''Heat'' ''heatSetpoint''
     = Inr (Some [(''mode'', JStr ''Heat''), (''heatSetpoint'', JNum 68),
                  (''thermostatSetpointStatus'', JStr ''HoldUntil''),
                  (''nextPeriodTime'', JStr ''14:15:00'')],
            [(''mode'', JStr ''Heat''), (''heatSetpoint'', JNum 68),
             (''thermostatSetpointStatus'', JStr ''HoldUntil''),
             (''nextPeriodTime'', JStr ''14:15:00'')])"
    by (simp add: update_values_def update_mode_def update_heat_cool_mode_def update_setpoint_def
        update_hold_def hold_needs_update_def dict_get_def threshold_def dict_get_json_def
        py_eq_num_def add_minutes_def add_micros_def micros_def of_micros_def MAXORDINAL_def
        round_up_to_quarter_hour_def strftime_HMS_def two_digits_def digit_char_def Let_def)
  have sp: "''heatSetpoint'' \<in> {''heatSetpoint'', ''coolSetpoint''}"
    by simp
  from update_values_idempotent[OF first sp] first show ?thesis
    by simp
qed

text \<open>
  Claim C2. At 13:40:00 a device already holds until 14:00:00 (20 minutes ahead) and its
  heat setpoint is 60 where 68 is preferred. \<open>update_heat_values\<close> sets the setpoint, so a
  field changed, and leaves the hold schedule as it was; but it returns \<^verbatim>\<open>None\<close>, not the
  values: the \<^verbatim>\<open>return values\<close> is only reached when the hold was rewritten.
\<close>

theorem update_values_drops_payload_in_hold_window:
  "update_heat_values \<lparr> ordinal = 739000, hour = 13, minute = 40, second = 0, microsecond = 0 \<rparr>
     [(''mode'', JStr ''Heat''), (''heatSetpoint'', JNum 60), (''coolSetpoint'', JNum 75),
      (''thermostatSetpointStatus'', JStr ''HoldUntil''), (''nextPeriodTime'', JStr ''14:00:00'')]
     [(''lowest'', [(''Fahrenheit'', 65)]), (''preferred'', [(''Fahrenheit'', 68)]),
      (''highest'', [(''Fahrenheit'', 75)])]
     (JStr ''Fahrenheit'')
   = Inr (None,
          [(''mode'', JStr ''Heat''), (''heatSetpoint'', JNum 68), (''coolSetpoint'', JNum 75),
           (''thermostatSetpointStatus'', JStr ''HoldUntil''),
           (''nextPeriodTime'', JStr ''14:00:00'')])"
  by (simp add: update_heat_values_def update_values_def update_mode_def
      update_heat_cool_mode_def update_setpoint_def update_hold_def hold_needs_update_def
      dict_get_def threshold_def dict_get_json_def py_eq_num_def is_x_minutes_in_future_def
      strptime_HMS_def digit_val_def add_minutes_def add_micros_def micros_def of_micros_def
      MAXORDINAL_def dt_less_def)

text \<open>
  Claim C4. At 17:30:00 a device in heat mode holds until 18:00:00. \<open>update_cool_values\<close>
  returns \<^verbatim>\<open>None\<close> ("no update"), yet the dictionary it was given has been changed in
  place: mode, heatCoolMode and the cool setpoint are overwritten.
\<close>

theorem update_values_none_but_mutated:
  "update_cool_values \<lparr> ordinal = 739000, hour = 17, minute = 30, second = 0, microsecond = 0 \<rparr>
     [(''mode'', JStr ''Heat''), (''heatCoolMode'', JStr ''Heat''), (''heatSetpoint'', JNum 68),
      (''coolSetpoint'', JNum 26), (''thermostatSetpointStatus'', JStr ''HoldUntil''),
      (''nextPeriodTime'', JStr ''18:00:00'')]
     [(''lowest'', [(''Celsius'', 18)]), (''preferred'', [(''Celsius'', 20)]),
      (''highest'', [(''Celsius'', 24)])]
     (JStr ''Celsius'')
   = Inr (None,
          [(''mode'', JStr ''Cool''), (''heatCoolMode'', JStr ''Cool''), (''heatSetpoint'', JNum 68),
           (''coolSetpoint'', JNum 20), (''thermostatSetpointStatus'', JStr ''HoldUntil''),
           (''nextPeriodTime'', JStr ''18:00:00'')]) \<and>
   [(''mode'', JStr ''Cool''), (''heatCoolMode'', JStr ''Cool''), (''heatSetpoint'', JNum 68),
    (''coolSetpoint'', JNum 20), (''thermostatSetpointStatus'', JStr ''HoldUntil''),
    (''nextPeriodTime'', JStr ''18:00:00'')]
   \<noteq> [(''mode'', JStr ''Heat''), (''heatCoolMode'', JStr ''Heat''), (''heatSetpoint'', JNum 68),
      (''coolSetpoint'', JNum 26), (''thermostatSetpointStatus'', JStr ''HoldUntil''),
      (''nextPeriodTime'', JStr ''18:00:00'')]"
  by (simp add: update_cool_values_def update_values_def update_mode_def
      update_heat_cool_mode_def update_setpoint_def update_hold_def hold_needs_update_def
      dict_get_def threshold_def dict_get_json_def py_eq_num_def is_x_minutes_in_future_def
      strptime_HMS_def digit_val_def add_minutes_def add_micros_def micros_def of_micros_def
      MAXORDINAL_def dt_less_def)

section \<open>Properties of the unit back-fill\<close>


lemma floor_rat_numeral_div: "\<lfloor>(numeral a :: rat) / numeral b\<rfloor> = numeral a div numeral b"
  using floor_divide_of_int_eq[of "numeral a" "numeral b", where ?'a = rat] by simp

















section \<open>Properties of the orchestrator\<close>

text \<open>The definitions that evaluate a run on a concrete input.\<close>

lemmas model_defs = main_def device_phase_def fetch_locations_def get_locations_and_devices_def
  refresh_access_token_def post_device_settings_def api_def push_settings_def process_location_def
  process_device_def decide_values_def subscript_def py_iter_def json_in_dict_def py_num_def
  py_lt_def py_gt_def dict_get_def dict_get_json_def threshold_def
  add_missing_temperature_units_def setting_names_def fill_setting_def py_round_def
  update_heat_values_def update_cool_values_def update_values_def update_mode_def
  update_heat_cool_mode_def update_setpoint_def update_hold_def hold_needs_update_def
  py_eq_num_def is_x_minutes_in_future_def strptime_HMS_def digit_val_def add_minutes_def
  add_days_def add_micros_def micros_def of_micros_def MAXORDINAL_def dt_less_def
  round_up_to_quarter_hour_def strftime_HMS_def two_digits_def digit_char_def Let_def

lemmas example_defs = example_config_def example_creds_def example_device_def
  example_locations_def example_payload_def example_now_def example_str_def new_tokens_def
  token_checking_env_def scripted_env_def









































lemma process_devices_append:
  "process_devices e cfg creds loc_id devs (before @ rest) tr =
     (case process_devices e cfg creds loc_id devs before tr of
        (Continue, tr1) \<Rightarrow> process_devices e cfg creds loc_id devs rest tr1
      | (Raised x, tr1) \<Rightarrow> (Raised x, tr1)
      | (Returned n, tr1) \<Rightarrow> (Returned n, tr1))"
  by (induction before arbitrary: tr) (auto split: prod.splits flow.splits)

lemma process_locations_append:
  "process_locations e str_of cfg creds (before @ rest) tr =
     (case process_locations e str_of cfg creds before tr of
        (Continue, tr1) \<Rightarrow> process_locations e str_of cfg creds rest tr1
      | (Raised x, tr1) \<Rightarrow> (Raised x, tr1)
      | (Returned n, tr1) \<Rightarrow> (Returned n, tr1))"
  by (induction before arbitrary: tr) (auto split: prod.splits flow.splits)

text \<open>
  Claim C10. Once the configuration is complete and the locations have been fetched, an
  exception raised in the loops ends \<open>main\<close> with exit code 0, the code of a run whose
  loops ran to their end, and the history stops where the exception was raised: an
  exception from iterating over the response, an exception in the body of the loop for
  one location (whatever locations follow it), where an exception in the body for one
  device leaves the loop over the devices (whatever devices follow it).
\<close>

theorem main_catches_loop_exceptions:
  assumes cfg: "add_missing_temperature_units config0 = Inr cfg"
    and fetch: "fetch_locations e cfg creds [] = (Inr location_response, tr0)"
  shows
    "(\<forall>x. py_iter location_response = Inl x \<longrightarrow> main e str_of config0 creds = (Exit 0, tr0)) \<and>
     (\<forall>before location rest tr1 tr2 x.
        py_iter location_response = Inr (before @ location # rest) \<and>
        process_locations e str_of cfg creds before tr0 = (Continue, tr1) \<and>
        process_location e str_of cfg creds location tr1 = (Raised x, tr2) \<longrightarrow>
        main e str_of config0 creds = (Exit 0, tr2)) \<and>
     (\<forall>loc_id devs before device rest tr tr1 tr2 x.
        process_devices e cfg creds loc_id devs before tr = (Continue, tr1) \<and>
        process_device e cfg creds loc_id devs device tr1 = (Raised x, tr2) \<longrightarrow>
        process_devices e cfg creds loc_id devs (before @ device # rest) tr = (Raised x, tr2)) \<and>
     (\<forall>locations tr1.
        py_iter location_response = Inr locations \<and>
        process_locations e str_of cfg creds locations tr0 = (Continue, tr1) \<longrightarrow>
        main e str_of config0 creds = (Exit 0, tr1))"
proof (intro conjI allI impI)
  fix x
  assume "py_iter location_response = Inl x"
  then show "main e str_of config0 creds = (Exit 0, tr0)"
    using cfg fetch by (simp add: main_def device_phase_def)
next
  fix before location rest tr1 tr2 x
  assume "py_iter location_response = Inr (before @ location # rest) \<and>
        process_locations e str_of cfg creds before tr0 = (Continue, tr1) \<and>
        process_location e str_of cfg creds location tr1 = (Raised x, tr2)"
  then show "main e str_of config0 creds = (Exit 0, tr2)"
    using cfg fetch by (simp add: main_def device_phase_def process_locations_append)
next
  fix loc_id devs before device rest tr tr1 tr2 x
  assume "process_devices e cfg creds loc_id devs before tr = (Continue, tr1) \<and>
        process_device e cfg creds loc_id devs device tr1 = (Raised x, tr2)"
  then show "process_devices e cfg creds loc_id devs (before @ device # rest) tr = (Raised x, tr2)"
    by (simp add: process_devices_append)
next
  fix locations tr1
  assume "py_iter location_response = Inr locations \<and>
        process_locations e str_of cfg creds locations tr0 = (Continue, tr1)"
  then show "main e str_of config0 creds = (Exit 0, tr1)"
    using cfg fetch by (simp add: main_def device_phase_def)
qed

text \<open>
  A run where the push for the first thermostat fails, which would lead to exit code 3 or
  4, but the refresh answers with a body that is not JSON: \<^verbatim>\<open>response.json()\<close> raises, the
  second thermostat is never looked at, and \<open>main\<close> returns 0.
\<close>

theorem main_catches_loop_exceptions_witness:
  "main (scripted_env failing_refresh_replies) example_str example_config example_creds =
     (Exit 0,
      [Api (GetLocationsAndDevices ''client-1'' ''old-token'')
         (HttpResponse 200 (Some example_locations)),
       Now example_now,
       Api (PostDeviceSettings ''client-1'' ''old-token'' ''1001'' (JStr ''LCC-1'') example_payload)
         (HttpResponse 401 (Some (JObj []))),
       Api (RefreshAccessToken ''client-1'' ''secret-1'' ''refresh-1'') (HttpResponse 502 None)])"
proof -
  let ?e = "scripted_env failing_refresh_replies"
  let ?tr0 = "[Api (GetLocationsAndDevices ''client-1'' ''old-token'')
                 (HttpResponse 200 (Some example_locations))]"
  let ?tr2 = "?tr0 @ [Now example_now,
       Api (PostDeviceSettings ''client-1'' ''old-token'' ''1001'' (JStr ''LCC-1'') example_payload)
         (HttpResponse 401 (Some (JObj []))),
       Api (RefreshAccessToken ''client-1'' ''secret-1'' ''refresh-1'') (HttpResponse 502 None)]"
  obtain cfg where cfg: "add_missing_temperature_units example_config = Inr cfg"
    and prefs: "location_prefs cfg =
         [(''1001'',
           [(''LCC-1'',
             [(''lowest'', [(''Fahrenheit'', 65), (''Celsius'', 37 / 2)]),
              (''preferred'', [(''Fahrenheit'', 68), (''Celsius'', 20)]),
              (''highest'', [(''Fahrenheit'', 75), (''Celsius'', 24)])])])]"
    and ids: "client_id cfg = ''client-1''" "client_secret cfg = ''secret-1''"
    by (simp add: model_defs example_defs floor_rat_numeral_div)
  have fetch: "fetch_locations ?e cfg example_creds [] = (Inr example_locations, ?tr0)"
    by (simp add: model_defs example_defs failing_refresh_replies_def ids)
  have iter: "py_iter example_locations =
      Inr ([] @ JObj [(''locationID'', JNum 1001), (''devices'', JArr [example_device, example_device])] # [])"
    by (simp add: py_iter_def example_locations_def)
  have before: "process_locations ?e example_str cfg example_creds [] ?tr0 = (Continue, ?tr0)"
    by simp
  have raised: "process_location ?e example_str cfg example_creds
      (JObj [(''locationID'', JNum 1001), (''devices'', JArr [example_device, example_device])]) ?tr0
      = (Raised JSONDecodeError, ?tr2)"
    by (simp add: model_defs example_defs failing_refresh_replies_def ids prefs)
  from main_catches_loop_exceptions[OF cfg fetch, of example_str] iter before raised
  have "main ?e example_str example_config example_creds = (Exit 0, ?tr2)"
    by blast
  then show ?thesis by simp
qed

subsection \<open>The access token in use\<close>


lemma only_adds_refl: "only_adds P tr tr"
  by (simp add: only_adds_def)

lemma only_adds_trans: "only_adds P tr tr1 \<Longrightarrow> only_adds P tr1 tr2 \<Longrightarrow> only_adds P tr tr2"
  by (auto simp: only_adds_def)

lemma only_adds_api:
  assumes "api e tr c = (res, tr')" "\<And>r. P (Api c r)"
  shows "only_adds P tr tr'"
  using assms by (auto simp: api_def only_adds_def Let_def)

lemma push_settings_token:
  assumes "push_settings e cfg creds loc_id dev_id values tr = (fl, tr')"
  shows "only_adds (uses_token (access_token creds)) tr tr'"
proof -
  let ?P = "uses_token (access_token creds)"
  let ?p = "PostDeviceSettings (client_id cfg) (access_token creds) loc_id dev_id values"
  let ?rf = "RefreshAccessToken (client_id cfg) (client_secret cfg) (refresh_token creds)"
  obtain res1 tr1 where a1: "api e tr ?p = (res1, tr1)" by fastforce
  obtain res2 tr2 where a2: "api e tr1 ?rf = (res2, tr2)" by fastforce
  obtain res3 tr3 where a3: "api e tr2 ?p = (res3, tr3)" by fastforce
  have 1: "only_adds ?P tr tr1" using only_adds_api[OF a1] by simp
  have 2: "only_adds ?P tr tr2" using only_adds_trans[OF 1 only_adds_api[OF a2]] by simp
  have 3: "only_adds ?P tr tr3" using only_adds_trans[OF 2 only_adds_api[OF a3]] by simp
  have "tr' = tr1 \<or> tr' = tr2 \<or> tr' = tr3"
    using assms a1 a2 a3
    unfolding push_settings_def post_device_settings_def refresh_access_token_def
    by (auto split: sum.splits if_splits prod.splits)
  with 1 2 3 show ?thesis by blast
qed

lemma fetch_locations_token:
  assumes "fetch_locations e cfg creds tr = (res, tr')"
  shows "only_adds (uses_token (access_token creds)) tr tr'"
proof -
  let ?P = "uses_token (access_token creds)"
  let ?p = "GetLocationsAndDevices (client_id cfg) (access_token creds)"
  let ?rf = "RefreshAccessToken (client_id cfg) (client_secret cfg) (refresh_token creds)"
  obtain res1 tr1 where a1: "api e tr ?p = (res1, tr1)" by fastforce
  obtain res2 tr2 where a2: "api e tr1 ?rf = (res2, tr2)" by fastforce
  obtain res3 tr3 where a3: "api e tr2 ?p = (res3, tr3)" by fastforce
  have 1: "only_adds ?P tr tr1" using only_adds_api[OF a1] by simp
  have 2: "only_adds ?P tr tr2" using only_adds_trans[OF 1 only_adds_api[OF a2]] by simp
  have 3: "only_adds ?P tr tr3" using only_adds_trans[OF 2 only_adds_api[OF a3]] by simp
  have "tr' = tr1 \<or> tr' = tr2 \<or> tr' = tr3"
    using assms a1 a2 a3
    unfolding fetch_locations_def get_locations_and_devices_def refresh_access_token_def
    by (auto split: sum.splits if_splits prod.splits)
  with 1 2 3 show ?thesis by blast
qed

lemma process_device_token:
  assumes "process_device e cfg creds loc_id devs device tr = (fl, tr')"
  shows "only_adds (uses_token (access_token creds)) tr tr'"
proof -
  let ?P = "uses_token (access_token creds)"
  have now: "only_adds ?P tr (tr @ [Now t])" for t
    by (simp add: only_adds_def)
  from assms show ?thesis
    unfolding process_device_def Let_def
    by (auto split: sum.splits bool.splits option.splits
        intro: only_adds_refl now only_adds_trans[OF now push_settings_token])
qed

lemma process_devices_token:
  assumes "process_devices e cfg creds loc_id devs devices tr = (fl, tr')"
  shows "only_adds (uses_token (access_token creds)) tr tr'"
  using assms
proof (induction devices arbitrary: tr)
  case Nil
  then show ?case by (auto intro: only_adds_refl)
next
  case (Cons device devices)
  obtain fl1 tr1 where d: "process_device e cfg creds loc_id devs device tr = (fl1, tr1)"
    by fastforce
  note s = process_device_token[OF d]
  from Cons.prems d s Cons.IH[of tr1] show ?case
    by (cases fl1) (auto intro: only_adds_trans)
qed

lemma process_location_token:
  assumes "process_location e str_of cfg creds location tr = (fl, tr')"
  shows "only_adds (uses_token (access_token creds)) tr tr'"
  using assms unfolding process_location_def Let_def
  by (auto split: sum.splits option.splits intro: only_adds_refl process_devices_token)

lemma process_locations_token:
  assumes "process_locations e str_of cfg creds locations tr = (fl, tr')"
  shows "only_adds (uses_token (access_token creds)) tr tr'"
  using assms
proof (induction locations arbitrary: tr)
  case Nil
  then show ?case by (auto intro: only_adds_refl)
next
  case (Cons location locations)
  obtain fl1 tr1 where d: "process_location e str_of cfg creds location tr = (fl1, tr1)"
    by fastforce
  note s = process_location_token[OF d]
  from Cons.prems d s Cons.IH[of tr1] show ?case
    by (cases fl1) (auto intro: only_adds_trans)
qed

lemma main_keeps_stored_token:
  assumes "main e str_of config0 creds = (out, tr)"
  shows "list_all (uses_token (access_token creds)) tr"
proof (cases "add_missing_temperature_units config0")
  case (Inl x)
  with assms show ?thesis by (simp add: main_def)
next
  case (Inr cfg)
  obtain res tr0 where f: "fetch_locations e cfg creds [] = (res, tr0)" by fastforce
  note fs = fetch_locations_token[OF f]
  show ?thesis
  proof (cases res)
    case (Inl out0)
    with assms Inr f fs show ?thesis by (simp add: main_def only_adds_def)
  next
    case res: (Inr location_response)
    with assms Inr f have d: "device_phase e str_of cfg creds location_response tr0 = (out, tr)"
      by (simp add: main_def)
    have "only_adds (uses_token (access_token creds)) tr0 tr"
    proof (cases "py_iter location_response")
      case (Inl x)
      with d show ?thesis by (simp add: device_phase_def only_adds_refl)
    next
      case (Inr locations)
      obtain fl tr1 where p: "process_locations e str_of cfg creds locations tr0 = (fl, tr1)"
        by fastforce
      with d Inr have "tr = tr1" by (cases fl) (simp_all add: device_phase_def)
      with process_locations_token[OF p] show ?thesis by simp
    qed
    from only_adds_trans[OF fs this] show ?thesis by (simp add: only_adds_def)
  qed
qed

text \<open>
  Claim C1. The stored access token is \<^verbatim>\<open>old-token\<close>. In the first run the API accepts only
  \<^verbatim>\<open>new-token\<close>, which the refresh hands out: the fetch fails, the refresh succeeds,
  nothing is written to the credential store, the fetch is repeated with \<^verbatim>\<open>old-token\<close>
  and \<open>main\<close> returns 2. In the second run the token expires after the fetch: the push is
  repeated after the successful refresh with \<^verbatim>\<open>old-token\<close> again, and \<open>main\<close> returns 4.
\<close>

theorem main_retries_with_old_token:
  "main token_checking_env example_str example_config example_creds =
     (Exit 2,
      [Api (GetLocationsAndDevices ''client-1'' ''old-token'') (HttpResponse 401 (Some (JObj []))),
       Api (RefreshAccessToken ''client-1'' ''secret-1'' ''refresh-1'')
         (HttpResponse 200 (Some new_tokens)),
       Api (GetLocationsAndDevices ''client-1'' ''old-token'') (HttpResponse 401 (Some (JObj [])))]) \<and>
   main (scripted_env expired_token_replies) example_str example_config example_creds =
     (Exit 4,
      [Api (GetLocationsAndDevices ''client-1'' ''old-token'')
         (HttpResponse 200 (Some example_locations)),
       Now example_now,
       Api (PostDeviceSettings ''client-1'' ''old-token'' ''1001'' (JStr ''LCC-1'') example_payload)
         (HttpResponse 401 (Some (JObj []))),
       Api (RefreshAccessToken ''client-1'' ''secret-1'' ''refresh-1'')
         (HttpResponse 200 (Some new_tokens)),
       Api (PostDeviceSettings ''client-1'' ''old-token'' ''1001'' (JStr ''LCC-1'') example_payload)
         (HttpResponse 401 (Some (JObj [])))])"
  by (simp add: model_defs example_defs expired_token_replies_def floor_rat_numeral_div)

section \<open>Properties of the redirect handler\<close>





end
